theory Spec2Isabelle
  imports Complex_Main "HOL-Library.Char_ord" "HOL-Library.List_Lexorder"
begin

section \<open>GreenCloud Advisor: a shallow embedding of the recommendation pipeline\<close>

text \<open>
  The development follows \<^verbatim>\<open>greencloud_advisor.py\<close> (class \<^verbatim>\<open>GreenCloudAdvisor\<close>),
  \<^verbatim>\<open>aws_regions_fetcher.py\<close> (\<^verbatim>\<open>RegionData\<close>), \<^verbatim>\<open>src/carbon_intensity_fetcher.py\<close>
  (\<^verbatim>\<open>get_live_carbon_intensity\<close>) and
  \<^verbatim>\<open>src/aws_live_checker.py\<close> (\<^verbatim>\<open>check_aws_service_availability_live\<close> and its helpers).

  Numbers: Python floats are modelled as exact reals, so every arithmetic statement below
  is a statement about the formulas of the source in exact arithmetic. IEEE-754 rounding
  is outside the model, with one exception: \<^verbatim>\<open>round\<close> is discontinuous, so the float that it
  receives is made explicit (field \<open>as_float\<close> of the environment). Strings are
  \<^typ>\<open>string\<close>, compared lexicographically; service names are taken to be ASCII.

  External collaborators (the boto3 clients and their AWS calls, the ElectricityMaps HTTP
  API, the \<^verbatim>\<open>config\<close> file, the region catalogue fetched through boto3) are fields of an
  environment record; each may raise. The modules themselves are taken to be importable, so
  the \<^verbatim>\<open>from ... import\<close> statements inside the methods succeed.
\<close>

subsection \<open>Exceptions\<close>

text \<open>
  Every constructor stands for a subclass of Python's \<^verbatim>\<open>Exception\<close>, so an
  \<^verbatim>\<open>except Exception\<close> clause catches each of them.
  \<^item> \<open>ValueError\<close>: \<^verbatim>\<open>math.sqrt\<close> of a negative number, \<^verbatim>\<open>math.asin\<close> outside [-1, 1];
  \<^item> \<open>IndexError\<close>: \<^verbatim>\<open>scored_regions[0]\<close> on an empty list;
  \<^item> \<open>TypeError\<close>: dividing a JSON value that is not a number by 1000;
  \<^item> \<open>AttributeError\<close>: \<^verbatim>\<open>data.get\<close> on a JSON document that is not an object;
  \<^item> \<open>UnboundLocalError\<close>: \<^verbatim>\<open>api_token\<close> read when no line of \<^verbatim>\<open>config\<close> assigned it;
  \<^item> \<open>ImportError\<close>: \<^verbatim>\<open>from botocore.exceptions import ...\<close> without botocore;
  \<^item> \<open>ExternalError msg\<close>: raised inside an external collaborator;
  \<^item> \<open>FetchFailed code e\<close>: the
    \<^verbatim>\<open>Exception(f"Failed to fetch carbon intensity for {region_code}: {str(e)}")\<close>
    of \<^verbatim>\<open>get_live_carbon_intensity\<close>, kept as the region code and the cause \<open>e\<close>.
\<close>

datatype py_error =
    ValueError
  | IndexError
  | TypeError
  | AttributeError
  | UnboundLocalError
  | ImportError
  | ExternalError string
  | FetchFailed string py_error

subsection \<open>Data model\<close>

text \<open>\<^verbatim>\<open>RegionData\<close> (frozen dataclass): code, name, location = (lat, lon) in degrees.\<close>

record region_data =
  code :: string
  name :: string
  location :: "real \<times> real"

text \<open>The dictionary appended to \<^verbatim>\<open>scored_regions\<close> for each region.\<close>

record scored_region =
  region_code :: string
  region_name :: string
  location_based_intensity :: real
  market_based_intensity :: real
  sustainability_score :: real

text \<open>The \<^verbatim>\<open>"analysis"\<close> dictionary of a successful recommendation.\<close>

record analysis =
  total_regions_evaluated :: nat
  nearby_regions_found :: nat
  service_compatible_regions :: nat

text \<open>
  The value returned by \<^verbatim>\<open>recommend_region\<close> is a Python dict with string keys; it is
  modelled as the list of its items in insertion order.
\<close>

datatype dict_value =
    Str string
  | Scored scored_region
  | ScoredList "scored_region list"
  | Analysis analysis

type_synonym result_dict = "(string \<times> dict_value) list"

text \<open>The JSON document returned by the ElectricityMaps endpoint.\<close>

datatype json_value =
    JNumber real
  | JOther

datatype json_data =
    JObject "string \<Rightarrow> json_value option"
  | JNotObject

text \<open>
  The boto3 side of \<^verbatim>\<open>aws_live_checker\<close>, for a region code \<open>r\<close>.
  \<^item> \<open>botocore_importable\<close>: whether \<^verbatim>\<open>from botocore.exceptions import ...\<close> succeeds;
  \<^item> \<open>boto3_client svc r\<close>: \<^verbatim>\<open>boto3.client(svc, region_name=r)\<close>;
  \<^item> \<open>describe_instance_type_offerings r t\<close>: the number of entries of
    \<^verbatim>\<open>response['InstanceTypeOfferings']\<close>, with the instance-type filter \<open>t\<close>
    (\<open>None\<close>: the call with \<^verbatim>\<open>MaxResults=1\<close> and no filter);
  \<^item> \<open>describe_db_engine_versions r e\<close>: the number of entries of
    \<^verbatim>\<open>response['DBEngineVersions']\<close>, for the engine \<open>e\<close> (\<open>None\<close>: no engine given);
  \<^item> \<open>list_clusters r\<close>: \<^verbatim>\<open>eks.list_clusters(maxResults=1)\<close>;
  \<^item> \<open>describe_clusters r\<close>: \<^verbatim>\<open>redshift.describe_clusters(MaxRecords=20)\<close>.
\<close>

record aws_api =
  botocore_importable :: bool
  boto3_client :: "string \<Rightarrow> string \<Rightarrow> py_error + unit"
  describe_instance_type_offerings :: "string \<Rightarrow> string option \<Rightarrow> py_error + nat"
  describe_db_engine_versions :: "string \<Rightarrow> string option \<Rightarrow> py_error + nat"
  list_clusters :: "string \<Rightarrow> py_error + unit"
  describe_clusters :: "string \<Rightarrow> py_error + unit"

text \<open>
  The environment of one run.
  \<^item> \<open>get_aws_regions\<close>: what \<^verbatim>\<open>AWSRegionsFetcher().get_aws_regions()\<close> yields when
    \<^verbatim>\<open>_create_region_mapping\<close> calls it (the cached catalogue, or an exception of boto3);
  \<^item> \<open>config_api_token\<close>: the scan of the file \<^verbatim>\<open>config\<close> for a line starting with
    \<^verbatim>\<open>API_TOKEN=\<close>: an exception of \<^verbatim>\<open>open\<close>, no such line (\<open>None\<close>), or the token;
  \<^item> \<open>http_get_json url token\<close>: \<^verbatim>\<open>requests.get\<close> with the \<^verbatim>\<open>auth-token\<close> header,
    \<^verbatim>\<open>raise_for_status\<close> and \<^verbatim>\<open>response.json()\<close>;
  \<^item> \<open>aws\<close>: the boto3 side;
  \<^item> \<open>as_float x\<close>: the double that the interpreter holds for a sustainability score whose
    exact value is \<open>x\<close>. It is within rounding error of \<open>x\<close> and can lie on either side of
    it; only \<^verbatim>\<open>round\<close> reads it.
\<close>

record env =
  get_aws_regions :: "py_error + region_data list"
  config_api_token :: "py_error + string option"
  http_get_json :: "string \<Rightarrow> string \<Rightarrow> py_error + json_data"
  aws :: aws_api
  as_float :: "real \<Rightarrow> real"

subsection \<open>\<^verbatim>\<open>_calculate_distance\<close>: the haversine formula\<close>

definition radians :: "real \<Rightarrow> real" where
  "radians x = x * pi / 180"

definition calculate_distance :: "real \<times> real \<Rightarrow> real \<times> real \<Rightarrow> py_error + real" where
  "calculate_distance loc1 loc2 =
    (let lat1 = radians (fst loc1); lon1 = radians (snd loc1);
         lat2 = radians (fst loc2); lon2 = radians (snd loc2);
         dlat = lat2 - lat1;
         dlon = lon2 - lon1;
         a = (sin (dlat / 2))\<^sup>2 + cos lat1 * cos lat2 * (sin (dlon / 2))\<^sup>2
     in if a < 0 then Inl ValueError
        else if 1 < sqrt a then Inl ValueError
        else Inr (6371 * (2 * arcsin (sqrt a))))"

text \<open>
  The local variable \<^verbatim>\<open>a\<close> and the value returned on the branch without \<open>ValueError\<close>,
  named for the proofs; \<open>calculate_distance_total\<close> below shows that this is the only
  branch taken.
\<close>

definition haversine_a :: "real \<times> real \<Rightarrow> real \<times> real \<Rightarrow> real" where
  "haversine_a loc1 loc2 =
     (sin ((radians (fst loc2) - radians (fst loc1)) / 2))\<^sup>2
       + cos (radians (fst loc1)) * cos (radians (fst loc2))
         * (sin ((radians (snd loc2) - radians (snd loc1)) / 2))\<^sup>2"

definition haversine_km :: "real \<times> real \<Rightarrow> real \<times> real \<Rightarrow> real" where
  "haversine_km loc1 loc2 = 6371 * (2 * arcsin (sqrt (haversine_a loc1 loc2)))"

subsection \<open>\<^verbatim>\<open>find_nearby_regions\<close>\<close>

text \<open>
  The loop over \<^verbatim>\<open>self.regions\<close> collecting \<^verbatim>\<open>(region, distance)\<close> pairs, then Python's
  stable \<^verbatim>\<open>sorted\<close> on the distance. \<^const>\<open>sort_key\<close> is a stable insertion sort.
\<close>

fun nearby_loop ::
  "real \<times> real \<Rightarrow> int \<Rightarrow> region_data list \<Rightarrow> py_error + (region_data \<times> real) list" where
  "nearby_loop user_location max_distance_km [] = Inr []"
| "nearby_loop user_location max_distance_km (region # rest) =
     (case calculate_distance user_location (location region) of
        Inl e \<Rightarrow> Inl e
      | Inr distance \<Rightarrow>
          (case nearby_loop user_location max_distance_km rest of
             Inl e \<Rightarrow> Inl e
           | Inr nearby \<Rightarrow>
               Inr (if distance \<le> real_of_int max_distance_km
                    then (region, distance) # nearby else nearby)))"

definition find_nearby_regions ::
  "region_data list \<Rightarrow> real \<times> real \<Rightarrow> int \<Rightarrow> py_error + region_data list" where
  "find_nearby_regions regions user_location max_distance_km =
     (case nearby_loop user_location max_distance_km regions of
        Inl e \<Rightarrow> Inl e
      | Inr nearby \<Rightarrow> Inr (map fst (sort_key snd nearby)))"

text \<open>
  The list \<^verbatim>\<open>find_nearby_regions\<close> returns, written without the error plumbing
  (\<open>find_nearby_regions_eq\<close> below).
\<close>

definition regions_within :: "region_data list \<Rightarrow> real \<times> real \<Rightarrow> int \<Rightarrow> region_data list" where
  "regions_within regions u m =
     map fst (sort_key snd (filter (\<lambda>p. snd p \<le> real_of_int m)
        (map (\<lambda>r. (r, haversine_km u (location r))) regions)))"

subsection \<open>\<^verbatim>\<open>aws_live_checker\<close>: the availability oracle\<close>

text \<open>\<^verbatim>\<open>str.lower\<close>, \<^verbatim>\<open>str.strip\<close> and the substring test \<^verbatim>\<open>sub in s\<close>, on ASCII strings.\<close>

definition ascii_upper :: string where
  "ascii_upper = ''ABCDEFGHIJKLMNOPQRSTUVWXYZ''"

definition ascii_lower :: string where
  "ascii_lower = ''abcdefghijklmnopqrstuvwxyz''"

definition py_lower :: "string \<Rightarrow> string" where
  "py_lower s =
     map (\<lambda>c. case map_of (zip ascii_upper ascii_lower) c of None \<Rightarrow> c | Some d \<Rightarrow> d) s"

definition is_space :: "char \<Rightarrow> bool" where
  "is_space c =
     (c \<in> set [CHR '' '', CHR 0x09, CHR 0x0A, CHR 0x0B, CHR 0x0C, CHR 0x0D,
                CHR 0x1C, CHR 0x1D, CHR 0x1E, CHR 0x1F])"

definition py_strip :: "string \<Rightarrow> string" where
  "py_strip s = rev (dropWhile is_space (rev (dropWhile is_space s)))"

fun contains :: "string \<Rightarrow> string \<Rightarrow> bool" where
  "contains sub [] = (sub = [])"
| "contains sub (c # cs) = (take (length sub) (c # cs) = sub \<or> contains sub cs)"

text \<open>
  \<^verbatim>\<open>check_ec2_instance_availability\<close>: any exception inside gives \<^verbatim>\<open>True\<close>
  (\<^verbatim>\<open>return True  # Default to available\<close>).
\<close>

definition check_ec2_instance_availability :: "env \<Rightarrow> string \<Rightarrow> string \<Rightarrow> bool" where
  "check_ec2_instance_availability E rcode service_request =
     (case (case boto3_client (aws E) ''ec2'' rcode of
              Inl e \<Rightarrow> Inl e
            | Inr ec2 \<Rightarrow>
                (case find (\<lambda>itype. contains itype service_request)
                        [''g6.4xlarge'', ''g6.2xlarge'', ''g6.xlarge'',
                         ''g5.4xlarge'', ''g5.2xlarge'', ''g5.xlarge''] of
                   Some instance_type \<Rightarrow>
                     (case describe_instance_type_offerings (aws E) rcode (Some instance_type) of
                        Inl e \<Rightarrow> Inl e
                      | Inr n \<Rightarrow> Inr (0 < n))
                 | None \<Rightarrow>
                     (case describe_instance_type_offerings (aws E) rcode None of
                        Inl e \<Rightarrow> Inl e
                      | Inr n \<Rightarrow> Inr (0 < n)))) of
        Inl e \<Rightarrow> True
      | Inr available \<Rightarrow> available)"

text \<open>
  \<^verbatim>\<open>check_basic_service_availability\<close>: the eks and redshift calls have a \<^verbatim>\<open>try\<close> of their
  own that gives \<^verbatim>\<open>False\<close>; every other exception, the creation of a client included, gives
  \<^verbatim>\<open>True\<close>.
\<close>

definition check_basic_service_availability :: "env \<Rightarrow> string \<Rightarrow> string \<Rightarrow> bool" where
  "check_basic_service_availability E rcode service_name =
     (case (if service_name \<in> set [''s3'', ''lambda'', ''ec2''] then Inr True
            else if service_name = ''rds'' then
              (case boto3_client (aws E) ''rds'' rcode of
                 Inl e \<Rightarrow> Inl e
               | Inr rds \<Rightarrow>
                   (case describe_db_engine_versions (aws E) rcode None of
                      Inl e \<Rightarrow> Inl e
                    | Inr n \<Rightarrow> Inr (0 < n)))
            else if service_name = ''eks'' then
              (case boto3_client (aws E) ''eks'' rcode of
                 Inl e \<Rightarrow> Inl e
               | Inr eks \<Rightarrow>
                   (case list_clusters (aws E) rcode of
                      Inl eks_e \<Rightarrow> Inr False
                    | Inr _ \<Rightarrow> Inr True))
            else if service_name = ''redshift'' then
              (case boto3_client (aws E) ''redshift'' rcode of
                 Inl e \<Rightarrow> Inl e
               | Inr redshift \<Rightarrow>
                   (case describe_clusters (aws E) rcode of
                      Inl redshift_e \<Rightarrow> Inr False
                    | Inr _ \<Rightarrow> Inr True))
            else Inr True) of
        Inl e \<Rightarrow> True
      | Inr available \<Rightarrow> available)"

text \<open>\<^verbatim>\<open>check_rds_engine_availability\<close>, with \<^verbatim>\<open>engine_map\<close> in insertion order.\<close>

definition engine_map :: "(string \<times> string) list" where
  "engine_map =
     [(''aurora'', ''aurora-mysql''), (''mysql'', ''mysql''), (''postgres'', ''postgres''),
      (''oracle'', ''oracle-ee''), (''sqlserver'', ''sqlserver-ex'')]"

definition check_rds_engine_availability :: "env \<Rightarrow> string \<Rightarrow> string \<Rightarrow> bool" where
  "check_rds_engine_availability E rcode service_request =
     (case (case boto3_client (aws E) ''rds'' rcode of
              Inl e \<Rightarrow> Inl e
            | Inr rds \<Rightarrow>
                (case find (\<lambda>(engine_name, engine_id). contains engine_name service_request)
                        engine_map of
                   Some (engine_name, engine_id) \<Rightarrow>
                     (case describe_db_engine_versions (aws E) rcode (Some engine_id) of
                        Inl e \<Rightarrow> Inl e
                      | Inr n \<Rightarrow> Inr (0 < n))
                 | None \<Rightarrow> Inr True)) of
        Inl e \<Rightarrow> True
      | Inr available \<Rightarrow> available)"

text \<open>
  \<^verbatim>\<open>check_aws_service_availability_live\<close>: the three \<^verbatim>\<open>except\<close> clauses all return
  \<^verbatim>\<open>False\<close>; a service name that no branch recognises is available.
\<close>

definition check_aws_service_availability_live :: "env \<Rightarrow> string \<Rightarrow> string \<Rightarrow> py_error + bool" where
  "check_aws_service_availability_live E rcode service =
     (case (if \<not> botocore_importable (aws E) then Inl ImportError
            else
              (let service_name = py_strip (py_lower service)
               in if contains ''ec2'' service_name \<and>
                     list_ex (\<lambda>x. contains x service_name)
                       [''g6'', ''g5'', ''p4'', ''p3'', ''c6'', ''m6'']
                  then Inr (check_ec2_instance_availability E rcode service_name)
                  else if service_name \<in> set [''ec2'', ''s3'', ''rds'', ''lambda'', ''ecs'',
                                              ''eks'', ''redshift'']
                  then Inr (check_basic_service_availability E rcode service_name)
                  else if contains ''rds'' service_name \<and>
                     list_ex (\<lambda>x. contains x service_name) [''aurora'', ''mysql'', ''postgres'']
                  then Inr (check_rds_engine_availability E rcode service_name)
                  else Inr True)) of
        Inl e \<Rightarrow> Inr False
      | Inr available \<Rightarrow> Inr available)"

subsection \<open>\<^verbatim>\<open>check_service_availability\<close> and \<^verbatim>\<open>filter_by_services\<close>\<close>

definition check_service_availability :: "env \<Rightarrow> string \<Rightarrow> string \<Rightarrow> bool" where
  "check_service_availability E rcode service =
     (case check_aws_service_availability_live E rcode service of
        Inl e \<Rightarrow> False
      | Inr available \<Rightarrow> available)"

definition filter_by_services ::
  "env \<Rightarrow> region_data list \<Rightarrow> string list \<Rightarrow> region_data list" where
  "filter_by_services E regions required_services =
     filter (\<lambda>region.
        list_all (\<lambda>service. check_service_availability E (code region) service)
          required_services) regions"

subsection \<open>\<^verbatim>\<open>get_live_carbon_intensity\<close>\<close>

definition base_mapping :: "(string \<times> string) list" where
  "base_mapping =
    [(''us-east-1'', ''US''), (''us-east-2'', ''US-CAL-LDWP''),
     (''us-west-1'', ''US-CAL-CISO''), (''us-west-2'', ''US-CAL-IID''),
     (''mx-central-1'', ''MX''),
     (''eu-west-1'', ''IE''), (''eu-west-2'', ''GB''), (''eu-west-3'', ''FR''),
     (''eu-central-1'', ''DE''),
     (''cn-north-1'', ''CN''), (''cn-northwest-1'', ''CN''), (''ap-east-1'', ''HK''),
     (''eu-north-1'', ''SE''), (''eu-south-1'', ''IT''), (''ap-south-1'', ''IN-WE''),
     (''ap-south-2'', ''IN-SO''), (''ap-southeast-1'', ''SG''),
     (''ap-southeast-2'', ''AU-NSW''), (''ap-southeast-3'', ''ID''),
     (''ap-southeast-4'', ''AU-QLD''), (''ap-southeast-5'', ''ML''),
     (''ap-southeast-6'', ''NZ''),
     (''ap-northeast-1'', ''JP''), (''ap-northeast-2'', ''KR''),
     (''ap-northeast-3'', ''JP-KN''), (''ap-east-1'', ''HK''), (''ca-central-1'', ''CA''),
     (''sa-east-1'', ''BR-SE''), (''me-south-1'', ''BH''), (''af-south-1'', ''ZA'')]"

definition create_region_mapping :: "env \<Rightarrow> py_error + (string \<times> string) list" where
  "create_region_mapping E =
     (case get_aws_regions E of
        Inl e \<Rightarrow> Inl e
      | Inr regions \<Rightarrow>
          Inr (map (\<lambda>region.
                 (code region,
                  (case map_of base_mapping (code region) of
                     None \<Rightarrow> ''DE''
                   | Some zone \<Rightarrow> zone))) regions))"

text \<open>
  The body of the \<^verbatim>\<open>try\<close> block: the request, then
  \<^verbatim>\<open>data.get("carbonIntensity", 400) / 1000\<close>, then the 30 percent reduction.
\<close>

definition fetch_intensity :: "env \<Rightarrow> string \<Rightarrow> string option \<Rightarrow> py_error + real \<times> real" where
  "fetch_intensity E zone token =
     (case token of
        None \<Rightarrow> Inl UnboundLocalError
      | Some api_token \<Rightarrow>
          (case http_get_json E
                  (''https://api.electricitymaps.com/v3/carbon-intensity/latest?zone='' @ zone)
                  api_token of
             Inl e \<Rightarrow> Inl e
           | Inr JNotObject \<Rightarrow> Inl AttributeError
           | Inr (JObject data) \<Rightarrow>
               (case (case data ''carbonIntensity'' of
                        None \<Rightarrow> Inr 400
                      | Some (JNumber v) \<Rightarrow> Inr v
                      | Some JOther \<Rightarrow> Inl TypeError) of
                  Inl e \<Rightarrow> Inl e
                | Inr raw \<Rightarrow>
                    (let carbon_intensity = raw / 1000;
                         location_based = carbon_intensity;
                         market_based = carbon_intensity * 0.7
                     in Inr (location_based, market_based)))))"

definition get_live_carbon_intensity :: "env \<Rightarrow> string \<Rightarrow> py_error + real \<times> real" where
  "get_live_carbon_intensity E rcode =
     (case create_region_mapping E of
        Inl e \<Rightarrow> Inl e
      | Inr region_mapping \<Rightarrow>
          (let zone = (case map_of region_mapping rcode of
                         None \<Rightarrow> ''DE''
                       | Some z \<Rightarrow> if z = [] then ''DE'' else z)
           in case config_api_token E of
                Inl e \<Rightarrow> Inl e
              | Inr token \<Rightarrow>
                  (case fetch_intensity E zone token of
                     Inl e \<Rightarrow> Inl (FetchFailed rcode e)
                   | Inr intensities \<Rightarrow> Inr intensities)))"

subsection \<open>\<^verbatim>\<open>calculate_sustainability_score\<close>\<close>

text \<open>
  The optional argument \<^verbatim>\<open>weight_market: float = 0.7\<close> is an \<open>option\<close>: \<open>None\<close> is a call
  that leaves it out.
\<close>

definition calculate_sustainability_score ::
  "env \<Rightarrow> string \<Rightarrow> real option \<Rightarrow> py_error + real \<times> real \<times> real" where
  "calculate_sustainability_score E rcode weight =
     (let weight_market = (case weight of None \<Rightarrow> 0.7 | Some w \<Rightarrow> w)
      in case get_live_carbon_intensity E rcode of
           Inl e \<Rightarrow> Inl e
         | Inr (location_based, market_based) \<Rightarrow>
             Inr (location_based, market_based,
                  market_based * weight_market + location_based * (1 - weight_market)))"

subsection \<open>\<^verbatim>\<open>round\<close>\<close>

text \<open>
  Python's \<^verbatim>\<open>round(x, ndigits)\<close>: the nearest multiple of \<open>10 ^ -ndigits\<close>, a tie going to
  the even multiple.
\<close>

definition round_half_even :: "real \<Rightarrow> int" where
  "round_half_even y =
     (let f = \<lfloor>y\<rfloor>; d = y - of_int f
      in if d < 1 / 2 then f
         else if 1 / 2 < d then f + 1
         else if even f then f else f + 1)"

definition py_round :: "real \<Rightarrow> nat \<Rightarrow> real" where
  "py_round x ndigits = of_int (round_half_even (x * 10 ^ ndigits)) / 10 ^ ndigits"

subsection \<open>\<^verbatim>\<open>recommend_region\<close>\<close>

text \<open>
  The scoring loop over \<^verbatim>\<open>compatible_regions\<close>. \<^verbatim>\<open>round(sustainability_score, 3)\<close> rounds the
  float that the interpreter holds for the score.
\<close>

fun score_loop :: "env \<Rightarrow> region_data list \<Rightarrow> py_error + scored_region list" where
  "score_loop E [] = Inr []"
| "score_loop E (region # rest) =
     (case calculate_sustainability_score E (code region) None of
        Inl e \<Rightarrow> Inl e
      | Inr (location_based, market_based, score) \<Rightarrow>
          (case score_loop E rest of
             Inl e \<Rightarrow> Inl e
           | Inr scored_regions \<Rightarrow>
               Inr (\<lparr>region_code = code region,
                     region_name = name region,
                     location_based_intensity = location_based,
                     market_based_intensity = market_based,
                     sustainability_score = py_round (as_float E score) 3\<rparr> # scored_regions)))"

text \<open>
  \<open>regions\<close> is \<^verbatim>\<open>self.regions\<close>; \<^verbatim>\<open>max_distance_km\<close> (default 5000) is passed by the
  caller. \<open>Inl\<close> is an exception leaving \<^verbatim>\<open>recommend_region\<close>, \<open>Inr\<close> the returned dict.
\<close>

definition recommend_region ::
  "env \<Rightarrow> region_data list \<Rightarrow> real \<times> real \<Rightarrow> string list \<Rightarrow> int \<Rightarrow> py_error + result_dict" where
  "recommend_region E regions user_location required_services max_distance_km =
     (case find_nearby_regions regions user_location max_distance_km of
        Inl e \<Rightarrow> Inl e
      | Inr nearby_regions \<Rightarrow>
          if nearby_regions = [] then
            Inr [(''error'', Str ''No regions found within specified distance'')]
          else
            (let compatible_regions = filter_by_services E nearby_regions required_services
             in if compatible_regions = [] then
                  Inr [(''error'', Str ''No regions support all required services'')]
                else
                  (case score_loop E compatible_regions of
                     Inl e \<Rightarrow> Inl e
                   | Inr scored \<Rightarrow>
                       (let scored_regions = sort_key sustainability_score scored
                        in case scored_regions of
                             [] \<Rightarrow> Inl IndexError
                           | best # _ \<Rightarrow>
                               Inr [(''recommended_region'', Scored best),
                                    (''all_options'', ScoredList scored_regions),
                                    (''analysis'', Analysis
                                       \<lparr>total_regions_evaluated = length regions,
                                        nearby_regions_found = length nearby_regions,
                                        service_compatible_regions =
                                          length compatible_regions\<rparr>)]))))"

subsection \<open>Sample inputs\<close>

text \<open>
  Two catalogue entries as \<^verbatim>\<open>AWSRegionsFetcher.get_aws_regions\<close> builds them (every region
  gets the location \<^verbatim>\<open>(0.0, 0.0)\<close>), and a third entry on the other side of the globe.
\<close>

definition london :: region_data where
  "london = \<lparr>code = ''eu-west-2'', name = ''London'', location = (0, 0)\<rparr>"

definition ireland :: region_data where
  "ireland = \<lparr>code = ''eu-west-1'', name = ''Ireland'', location = (0, 0)\<rparr>"


definition sample_regions :: "region_data list" where
  "sample_regions = [london, ireland]"


text \<open>
  AWS behaviours: every call answers with one entry; every AWS call raises, the clients
  being created; the redshift call raises; botocore is missing.
\<close>

definition aws_up :: aws_api where
  "aws_up =
     \<lparr>botocore_importable = True,
      boto3_client = (\<lambda>svc r. Inr ()),
      describe_instance_type_offerings = (\<lambda>r t. Inr 1),
      describe_db_engine_versions = (\<lambda>r e. Inr 1),
      list_clusters = (\<lambda>r. Inr ()),
      describe_clusters = (\<lambda>r. Inr ())\<rparr>"


definition aws_redshift_down :: aws_api where
  "aws_redshift_down =
     aws_up\<lparr>describe_clusters := (\<lambda>r. Inl (ExternalError ''ClientError''))\<rparr>"


text \<open>
  An environment with a readable \<^verbatim>\<open>config\<close>, whose HTTP answers and AWS behaviour are chosen
  per example. Its scores are held exactly; the examples stay away from rounding ties.
\<close>

definition sample_env :: "(string \<Rightarrow> py_error + json_data) \<Rightarrow> aws_api \<Rightarrow> env" where
  "sample_env http api =
     \<lparr>get_aws_regions = Inr sample_regions,
      config_api_token = Inr (Some ''token''),
      http_get_json = (\<lambda>url token. http url),
      aws = api,
      as_float = (\<lambda>x. x)\<rparr>"

text \<open>An ElectricityMaps answer \<^verbatim>\<open>{"carbonIntensity": v}\<close>.\<close>

definition intensity_json :: "real \<Rightarrow> py_error + json_data" where
  "intensity_json v = Inr (JObject [''carbonIntensity'' \<mapsto> JNumber v])"

text \<open>
  Two HTTP behaviours: the request for Ireland's zone times out; the two zones report
  intensities 100.1 and 100 g/kWh.
\<close>

definition failing_ireland :: "string \<Rightarrow> py_error + json_data" where
  "failing_ireland url =
     (if url = ''https://api.electricitymaps.com/v3/carbon-intensity/latest?zone=IE''
      then Inl (ExternalError ''timeout'') else intensity_json 100)"

definition close_scores :: "string \<Rightarrow> py_error + json_data" where
  "close_scores url =
     (if url = ''https://api.electricitymaps.com/v3/carbon-intensity/latest?zone=GB''
      then intensity_json (1001 / 10) else intensity_json 100)"

text \<open>The dictionaries that the scoring loop builds for the two sample regions.\<close>

definition london_scored :: "real \<Rightarrow> real \<Rightarrow> real \<Rightarrow> scored_region" where
  "london_scored l mb s =
     \<lparr>region_code = ''eu-west-2'', region_name = ''London'',
      location_based_intensity = l, market_based_intensity = mb, sustainability_score = s\<rparr>"

definition ireland_scored :: "real \<Rightarrow> real \<Rightarrow> real \<Rightarrow> scored_region" where
  "ireland_scored l mb s =
     \<lparr>region_code = ''eu-west-1'', region_name = ''Ireland'',
      location_based_intensity = l, market_based_intensity = mb, sustainability_score = s\<rparr>"

section \<open>Properties\<close>

subsection \<open>The haversine formula stays inside the domain of \<open>sqrt\<close> and \<open>asin\<close>\<close>

lemma sin_sq_le_one: "(sin x)\<^sup>2 \<le> 1" for x :: real
  using sin_cos_squared_add [of x] zero_le_power2 [of "cos x"] by linarith

lemma cos_sq_le_one: "(cos x)\<^sup>2 \<le> 1" for x :: real
  using sin_cos_squared_add [of x] zero_le_power2 [of "sin x"] by linarith

lemma hav_sum_half:
  "(sin (v - u))\<^sup>2 + cos (2 * u) * cos (2 * v) = (cos (u + v))\<^sup>2" for u v :: real
proof -
  have c2: "cos (2 * u) = cos u * cos u - sin u * sin u"
    "cos (2 * v) = cos v * cos v - sin v * sin v"
    by (simp_all add: cos_double power2_eq_square)
  show ?thesis
    unfolding c2 by (simp add: sin_diff cos_add power2_eq_square algebra_simps)
qed

lemma hav_sum:
  "(sin ((y - x) / 2))\<^sup>2 + cos x * cos y = (cos ((x + y) / 2))\<^sup>2" for x y :: real
  using hav_sum_half [of "y / 2" "x / 2"] by (simp add: diff_divide_distrib add_divide_distrib)

text \<open>
  With \<open>t\<close> the squared sine of half the longitude difference, \<open>a\<close> lies between
  \<open>sin\<^sup>2 (dlat / 2)\<close> and \<open>cos\<^sup>2 ((lat1 + lat2) / 2)\<close>, whatever the latitudes are.
\<close>

lemma hav_range:
  fixes x y t :: real
  assumes "0 \<le> t" "t \<le> 1"
  shows "0 \<le> (sin ((y - x) / 2))\<^sup>2 + cos x * cos y * t"
    and "(sin ((y - x) / 2))\<^sup>2 + cos x * cos y * t \<le> 1"
proof -
  let ?s = "(sin ((y - x) / 2))\<^sup>2"
  let ?P = "cos x * cos y"
  have s0: "0 \<le> ?s" by simp
  have s1: "?s \<le> 1" by (rule sin_sq_le_one)
  have sp: "?s + ?P = (cos ((x + y) / 2))\<^sup>2" by (rule hav_sum)
  have sp0: "0 \<le> ?s + ?P" unfolding sp by simp
  have sp1: "?s + ?P \<le> 1" unfolding sp by (rule cos_sq_le_one)
  have eq: "?s + ?P * t = (1 - t) * ?s + t * (?s + ?P)" by (simp add: algebra_simps)
  show "0 \<le> ?s + ?P * t" unfolding eq using assms s0 sp0 by simp
  have "(1 - t) * ?s + t * (?s + ?P) \<le> (1 - t) * 1 + t * 1"
    using assms s1 sp1 by (intro add_mono mult_left_mono) auto
  then show "?s + ?P * t \<le> 1" unfolding eq by simp
qed

lemma haversine_a_range: "0 \<le> haversine_a p q" "haversine_a p q \<le> 1"
  unfolding haversine_a_def by (rule hav_range; simp add: sin_sq_le_one)+

lemma calculate_distance_total: "calculate_distance p q = Inr (haversine_km p q)"
proof -
  have "sqrt (haversine_a p q) \<le> 1" using haversine_a_range [of p q] by simp
  then show ?thesis
    using haversine_a_range [of p q]
    by (simp add: calculate_distance_def Let_def haversine_km_def haversine_a_def [symmetric]
        not_less [symmetric])
qed



lemma haversine_km_self: "haversine_km p p = 0"
  by (simp add: haversine_km_def haversine_a_def)


subsection \<open>Where the distance is zero\<close>



lemma radians_abs_le: "\<bar>x\<bar> \<le> 90 \<Longrightarrow> \<bar>radians x\<bar> \<le> pi / 2"
proof -
  assume a: "\<bar>x\<bar> \<le> 90"
  have "\<bar>radians x\<bar> = \<bar>x\<bar> * pi / 180" by (simp add: radians_def abs_mult)
  also have "\<dots> \<le> 90 * pi / 180" using a by (simp add: mult_right_mono)
  finally show ?thesis by simp
qed





subsection \<open>The distance filter\<close>

lemma nearby_loop_eq:
  "nearby_loop u m rs =
     Inr (filter (\<lambda>p. snd p \<le> real_of_int m) (map (\<lambda>r. (r, haversine_km u (location r))) rs))"
  by (induction rs) (simp_all add: calculate_distance_total)

lemma find_nearby_regions_eq:
  "find_nearby_regions regions u m = Inr (regions_within regions u m)"
  by (simp add: find_nearby_regions_def nearby_loop_eq regions_within_def)






lemma score_loop_rel:
  "score_loop E rs = Inr scored \<Longrightarrow>
   list_all2 (\<lambda>region s. \<exists>l m x.
        calculate_sustainability_score E (code region) None = Inr (l, m, x) \<and>
        s = \<lparr>region_code = code region, region_name = name region,
             location_based_intensity = l, market_based_intensity = m,
             sustainability_score = py_round (as_float E x) 3\<rparr>) rs scored"
  by (induction rs arbitrary: scored) (auto split: sum.splits prod.splits)

lemma score_loop_error_from:
  "score_loop E rs = Inl e \<Longrightarrow>
   \<exists>r \<in> set rs. calculate_sustainability_score E (code r) None = Inl e"
  by (induction rs) (auto split: sum.splits prod.splits)

lemma score_loop_fails:
  "r \<in> set rs \<Longrightarrow> calculate_sustainability_score E (code r) None = Inl e \<Longrightarrow>
   \<exists>e'. score_loop E rs = Inl e'"
  by (induction rs) (auto split: sum.splits prod.splits)

subsection \<open>The scoring loop and the shape of the result\<close>

lemma calculate_score_error_iff:
  "calculate_sustainability_score E rcode w = Inl e \<longleftrightarrow> get_live_carbon_intensity E rcode = Inl e"
  by (auto simp: calculate_sustainability_score_def Let_def split: sum.splits prod.splits)


lemma recommend_region_empty_compatible:
  "regions_within regions u m \<noteq> [] \<Longrightarrow>
   filter_by_services E (regions_within regions u m) svcs = [] \<Longrightarrow>
   recommend_region E regions u svcs m =
     Inr [(''error'', Str ''No regions support all required services'')]"
  by (simp add: recommend_region_def find_nearby_regions_eq)

lemma recommend_region_raises:
  "regions_within regions u m \<noteq> [] \<Longrightarrow>
   filter_by_services E (regions_within regions u m) svcs \<noteq> [] \<Longrightarrow>
   score_loop E (filter_by_services E (regions_within regions u m) svcs) = Inl e \<Longrightarrow>
   recommend_region E regions u svcs m = Inl e"
  by (simp add: recommend_region_def find_nearby_regions_eq)




subsection \<open>Evaluating the sample environment\<close>

lemma sample_region_mapping:
  "create_region_mapping (sample_env http api) =
     Inr [(''eu-west-2'', ''GB''), (''eu-west-1'', ''IE'')]"
  by (simp add: create_region_mapping_def sample_env_def sample_regions_def london_def
      ireland_def base_mapping_def)

lemma fetch_intensity_sample:
  "fetch_intensity (sample_env http api) zone (Some token) =
     (case http (''https://api.electricitymaps.com/v3/carbon-intensity/latest?zone='' @ zone) of
        Inl e \<Rightarrow> Inl e
      | Inr JNotObject \<Rightarrow> Inl AttributeError
      | Inr (JObject data) \<Rightarrow>
          (case data ''carbonIntensity'' of
             None \<Rightarrow> Inr (400 / 1000, 400 / 1000 * 0.7)
           | Some (JNumber v) \<Rightarrow> Inr (v / 1000, v / 1000 * 0.7)
           | Some JOther \<Rightarrow> Inl TypeError))"
  by (simp add: fetch_intensity_def sample_env_def Let_def
      split: sum.splits json_data.splits option.splits json_value.splits)

lemma get_live_sample_london:
  "get_live_carbon_intensity (sample_env http api) ''eu-west-2'' =
     (case fetch_intensity (sample_env http api) ''GB'' (Some ''token'') of
        Inl e \<Rightarrow> Inl (FetchFailed ''eu-west-2'' e) | Inr x \<Rightarrow> Inr x)"
  by (simp add: get_live_carbon_intensity_def sample_region_mapping) (simp add: sample_env_def)

lemma get_live_sample_ireland:
  "get_live_carbon_intensity (sample_env http api) ''eu-west-1'' =
     (case fetch_intensity (sample_env http api) ''IE'' (Some ''token'') of
        Inl e \<Rightarrow> Inl (FetchFailed ''eu-west-1'' e) | Inr x \<Rightarrow> Inr x)"
  by (simp add: get_live_carbon_intensity_def sample_region_mapping) (simp add: sample_env_def)

lemma get_live_sample_const:
  "get_live_carbon_intensity (sample_env (\<lambda>url. intensity_json v) api) ''eu-west-2''
     = Inr (v / 1000, v / 1000 * 0.7)"
  by (simp add: get_live_sample_london fetch_intensity_sample intensity_json_def)

lemma get_live_shape:
  assumes "get_live_carbon_intensity E rcode = Inr (l, m)"
  shows "m = 0.7 * l \<and>
         (\<exists>url token data. http_get_json E url token = Inr (JObject data) \<and>
            (data ''carbonIntensity'' = None \<and> l = 400 / 1000 \<or>
             (\<exists>v. data ''carbonIntensity'' = Some (JNumber v) \<and> l = v / 1000)))"
  using assms
  unfolding get_live_carbon_intensity_def fetch_intensity_def Let_def
  by (auto split: sum.splits option.splits json_data.splits json_value.splits)

subsection \<open>Stable sorting keeps the order of ties\<close>




subsection \<open>Rounding\<close>




lemma py_round_79: "py_round (79 / 1000) 3 = 79 / 1000"
  by (simp add: py_round_def round_half_even_def Let_def)

lemma py_round_79079: "py_round (79079 / 1000000) 3 = 79 / 1000"
  by (simp add: py_round_def round_half_even_def Let_def)

subsection \<open>Sample runs\<close>


lemma regions_within_sample_origin: "regions_within sample_regions (0, 0) 5000 = [london, ireland]"
  by (simp add: regions_within_def sample_regions_def london_def ireland_def haversine_km_self)


lemma regions_within_sample_none: "regions_within sample_regions (0, 0) (- 1) = []"
  by (simp add: regions_within_def sample_regions_def london_def ireland_def haversine_km_self)




lemma sample_as_float: "as_float (sample_env http api) x = x"
  by (simp add: sample_env_def)

lemma check_service_availability_aws_up:
  "check_service_availability (sample_env http aws_up) rcode service"
  by (simp add: check_service_availability_def check_aws_service_availability_live_def
      check_ec2_instance_availability_def check_basic_service_availability_def
      check_rds_engine_availability_def sample_env_def aws_up_def Let_def
      split: option.splits prod.splits)

lemma filter_by_services_sample_all:
  "filter_by_services (sample_env http aws_up) rs svcs = rs"
  by (simp add: filter_by_services_def check_service_availability_aws_up list_all_iff)



lemma get_live_failing_ireland:
  "get_live_carbon_intensity (sample_env failing_ireland api) ''eu-west-2'' = Inr (1 / 10, 7 / 100)"
  "get_live_carbon_intensity (sample_env failing_ireland api) ''eu-west-1''
     = Inl (FetchFailed ''eu-west-1'' (ExternalError ''timeout''))"
  by (simp_all add: get_live_sample_london get_live_sample_ireland fetch_intensity_sample
      failing_ireland_def intensity_json_def)

lemma score_loop_failing_ireland:
  "score_loop (sample_env failing_ireland api) [london, ireland]
     = Inl (FetchFailed ''eu-west-1'' (ExternalError ''timeout''))"
  by (simp add: london_def ireland_def calculate_sustainability_score_def get_live_failing_ireland)



lemma score_close_scores:
  "calculate_sustainability_score (sample_env close_scores api) ''eu-west-2'' None
     = Inr (1001 / 10000, 7007 / 100000, 79079 / 1000000)"
  "calculate_sustainability_score (sample_env close_scores api) ''eu-west-1'' None
     = Inr (1 / 10, 7 / 100, 79 / 1000)"
  by (simp_all add: calculate_sustainability_score_def get_live_sample_london
      get_live_sample_ireland fetch_intensity_sample intensity_json_def close_scores_def)

lemma score_loop_close_scores:
  "score_loop (sample_env close_scores api) [london, ireland] =
     Inr [london_scored (1001 / 10000) (7007 / 100000) (79 / 1000),
          ireland_scored (1 / 10) (7 / 100) (79 / 1000)]"
  by (simp add: london_def ireland_def score_close_scores py_round_79 py_round_79079
      london_scored_def ireland_scored_def sample_as_float)





subsection \<open>Evaluating the availability oracle\<close>

lemma check_service_availability_iff:
  "check_service_availability E rcode service \<longleftrightarrow>
     check_aws_service_availability_live E rcode service = Inr True"
  by (simp add: check_service_availability_def check_aws_service_availability_live_def
      split: sum.splits)





lemma live_redshift:
  assumes "botocore_importable (aws E)" "py_strip (py_lower service) = ''redshift''"
  shows "check_aws_service_availability_live E rcode service =
           Inr (check_basic_service_availability E rcode ''redshift'')"
  using assms by (simp add: check_aws_service_availability_live_def)


lemma normalised_names:
  "py_strip (py_lower ''rds'') = ''rds''" "py_strip (py_lower ''eks'') = ''eks''"
  "py_strip (py_lower ''redshift'') = ''redshift''"
  "py_strip (py_lower ''ec2 g6.4xlarge'') = ''ec2 g6.4xlarge''"
  "py_strip (py_lower '' RDS '') = ''rds''"
  by (simp_all add: py_strip_def py_lower_def ascii_upper_def ascii_lower_def is_space_def)

lemma redshift_down_unavailable:
  "\<not> check_service_availability (sample_env http aws_redshift_down) rcode ''redshift''"
  by (simp add: check_service_availability_iff live_redshift normalised_names
      check_basic_service_availability_def sample_env_def aws_redshift_down_def aws_up_def)



subsection \<open>The pipeline behind a ranking\<close>


section \<open>Specified properties\<close>

subsection \<open>The haversine distance (C6)\<close>




subsection \<open>The availability gate (C2, C8)\<close>

text \<open>
  C8. For every region the gate \<^verbatim>\<open>all(... for service in required_services)\<close> over the empty
  list of required services is true, and \<^verbatim>\<open>filter_by_services\<close> with the empty list returns
  its input list unchanged.
\<close>

theorem filter_by_services_empty_required:
  "list_all (check_service_availability E (code region)) [] \<and>
   filter_by_services E regions [] = regions"
  by (simp add: filter_by_services_def)




subsection \<open>Carbon intensity and the sustainability score (C5, C9)\<close>

text \<open>
  C5. Whenever the carbon-intensity fetch for a region returns \<open>(location_based,
  market_based)\<close>, \<^verbatim>\<open>calculate_sustainability_score\<close> with weight \<open>w\<close> returns these two values
  and the score \<open>market_based * w + location_based * (1 - w)\<close>; a call that leaves the
  weight out is the call with weight 0.7.
\<close>

theorem calculate_sustainability_score_formula:
  assumes "get_live_carbon_intensity E rcode = Inr (location_based, market_based)"
  shows "calculate_sustainability_score E rcode (Some w) =
           Inr (location_based, market_based,
                market_based * w + location_based * (1 - w)) \<and>
         calculate_sustainability_score E rcode None =
           calculate_sustainability_score E rcode (Some 0.7)"
  using assms by (simp add: calculate_sustainability_score_def)

theorem calculate_sustainability_score_formula_witness:
  "get_live_carbon_intensity (sample_env (\<lambda>url. intensity_json 300) aws_up) ''eu-west-2''
     = Inr (3 / 10, 21 / 100) \<and>
   calculate_sustainability_score (sample_env (\<lambda>url. intensity_json 300) aws_up)
       ''eu-west-2'' (Some (1 / 2)) = Inr (3 / 10, 21 / 100, 51 / 200) \<and>
   calculate_sustainability_score (sample_env (\<lambda>url. intensity_json 300) aws_up)
       ''eu-west-2'' None =
   calculate_sustainability_score (sample_env (\<lambda>url. intensity_json 300) aws_up)
       ''eu-west-2'' (Some 0.7)"
proof -
  let ?E = "sample_env (\<lambda>url. intensity_json 300) aws_up"
  have g: "get_live_carbon_intensity ?E ''eu-west-2'' = Inr (3 / 10, 21 / 100)"
    by (simp add: get_live_sample_const)
  show ?thesis
    using calculate_sustainability_score_formula [OF g, of "1 / 2"] g by simp
qed

text \<open>
  C9. Whenever the carbon-intensity fetch for a region succeeds, the market-based value is
  0.7 times the location-based value, the location-based value is the \<^verbatim>\<open>carbonIntensity\<close>
  field of an answer of the HTTP endpoint divided by 1000 (400 / 1000 when the answer has
  no such field), and the score under the default weight is 0.79 times the location-based
  value.
\<close>

theorem market_based_is_scaled_location_based:
  assumes "get_live_carbon_intensity E rcode = Inr (location_based, market_based)"
  shows "market_based = 0.7 * location_based \<and>
         (\<exists>url token data. http_get_json E url token = Inr (JObject data) \<and>
            (data ''carbonIntensity'' = None \<and> location_based = 400 / 1000 \<or>
             (\<exists>v. data ''carbonIntensity'' = Some (JNumber v) \<and> location_based = v / 1000))) \<and>
         calculate_sustainability_score E rcode None =
           Inr (location_based, market_based, 0.79 * location_based)"
proof -
  note s = get_live_shape [OF assms]
  then have m: "market_based = 0.7 * location_based" by blast
  have "calculate_sustainability_score E rcode None =
           Inr (location_based, market_based, 0.79 * location_based)"
    using assms by (simp add: calculate_sustainability_score_def m)
  with s show ?thesis by blast
qed

theorem market_based_is_scaled_location_based_witness:
  "get_live_carbon_intensity (sample_env (\<lambda>url. intensity_json 300) aws_up) ''eu-west-2''
     = Inr (3 / 10, 21 / 100) \<and>
   (21 / 100 :: real) = 0.7 * (3 / 10) \<and>
   calculate_sustainability_score (sample_env (\<lambda>url. intensity_json 300) aws_up)
       ''eu-west-2'' None = Inr (3 / 10, 21 / 100, 0.79 * (3 / 10))"
proof -
  let ?E = "sample_env (\<lambda>url. intensity_json 300) aws_up"
  have g: "get_live_carbon_intensity ?E ''eu-west-2'' = Inr (3 / 10, 21 / 100)"
    by (simp add: get_live_sample_const)
  show ?thesis
    using market_based_is_scaled_location_based [OF g] g by simp
qed

subsection \<open>Oracle failures during scoring (C3)\<close>

text \<open>
  C3, as amended. If the carbon-intensity fetch fails for a region that survived the
  distance and availability filters, \<^verbatim>\<open>recommend_region\<close> returns nothing: it raises, and
  the exception is the one of a surviving region whose fetch failed. No region is ranked
  and no diagnostic is recorded.
\<close>

theorem recommend_region_propagates_fetch_failure:
  assumes "find_nearby_regions regions user_location max_distance_km = Inr nearby"
    and "region \<in> set (filter_by_services E nearby required_services)"
    and "get_live_carbon_intensity E (code region) = Inl e"
  shows "\<exists>e'. recommend_region E regions user_location required_services max_distance_km = Inl e'
           \<and> (\<exists>r \<in> set (filter_by_services E nearby required_services).
                 get_live_carbon_intensity E (code r) = Inl e')"
proof -
  have n: "nearby = regions_within regions user_location max_distance_km"
    using assms(1) by (simp add: find_nearby_regions_eq)
  let ?c = "filter_by_services E nearby required_services"
  have c: "?c \<noteq> []" using assms(2) by auto
  then have n0: "nearby \<noteq> []" by (auto simp: filter_by_services_def)
  have "calculate_sustainability_score E (code region) None = Inl e"
    using assms(3) by (simp add: calculate_score_error_iff)
  from score_loop_fails [OF assms(2) this] obtain e' where e': "score_loop E ?c = Inl e'" by blast
  from score_loop_error_from [OF e'] have
    "\<exists>r \<in> set ?c. get_live_carbon_intensity E (code r) = Inl e'"
    by (simp add: calculate_score_error_iff)
  moreover have "recommend_region E regions user_location required_services max_distance_km = Inl e'"
    using recommend_region_raises [of regions user_location max_distance_km E required_services e']
      n0 c e' by (simp add: n)
  ultimately show ?thesis by blast
qed

theorem recommend_region_propagates_fetch_failure_witness:
  "find_nearby_regions sample_regions (0, 0) 5000 = Inr [london, ireland] \<and>
   ireland \<in> set (filter_by_services (sample_env failing_ireland aws_up)
                    [london, ireland] [''ec2'']) \<and>
   get_live_carbon_intensity (sample_env failing_ireland aws_up) (code ireland)
      = Inl (FetchFailed ''eu-west-1'' (ExternalError ''timeout'')) \<and>
   (\<exists>e'. recommend_region (sample_env failing_ireland aws_up) sample_regions (0, 0)
            [''ec2''] 5000 = Inl e')"
proof -
  let ?E = "sample_env failing_ireland aws_up"
  have a: "find_nearby_regions sample_regions (0, 0) 5000 = Inr [london, ireland]"
    by (simp add: find_nearby_regions_eq regions_within_sample_origin)
  have b: "ireland \<in> set (filter_by_services ?E [london, ireland] [''ec2''])"
    by (simp add: filter_by_services_sample_all)
  have c: "get_live_carbon_intensity ?E (code ireland)
      = Inl (FetchFailed ''eu-west-1'' (ExternalError ''timeout''))"
    by (simp add: get_live_failing_ireland ireland_def)
  from recommend_region_propagates_fetch_failure [OF a b c] a b c show ?thesis by blast
qed

text \<open>
  C3 as stated fails: London and Ireland both survive the filters, the fetch succeeds for
  London and times out for Ireland, and the whole call raises instead of ranking London.
\<close>

theorem recommend_region_fetch_failure_counterexample:
  "recommend_region (sample_env failing_ireland aws_up) sample_regions (0, 0)
      [''ec2''] 5000 = Inl (FetchFailed ''eu-west-1'' (ExternalError ''timeout'')) \<and>
   filter_by_services (sample_env failing_ireland aws_up) [london, ireland] [''ec2'']
      = [london, ireland] \<and>
   get_live_carbon_intensity (sample_env failing_ireland aws_up) (code london)
      = Inr (1 / 10, 7 / 100)"
proof -
  let ?E = "sample_env failing_ireland aws_up"
  have n: "regions_within sample_regions (0, 0) 5000 \<noteq> []"
    by (simp add: regions_within_sample_origin)
  have c: "filter_by_services ?E (regions_within sample_regions (0, 0) 5000) [''ec2''] \<noteq> []"
    by (simp add: regions_within_sample_origin filter_by_services_sample_all)
  have s: "score_loop ?E (filter_by_services ?E (regions_within sample_regions (0, 0) 5000)
      [''ec2'']) = Inl (FetchFailed ''eu-west-1'' (ExternalError ''timeout''))"
    by (simp only: regions_within_sample_origin filter_by_services_sample_all
        score_loop_failing_ireland)
  have "recommend_region ?E sample_regions (0, 0) [''ec2''] 5000
      = Inl (FetchFailed ''eu-west-1'' (ExternalError ''timeout''))"
    by (rule recommend_region_raises [OF n c s])
  moreover have "filter_by_services ?E [london, ireland] [''ec2''] = [london, ireland]"
    by (rule filter_by_services_sample_all)
  moreover have "get_live_carbon_intensity ?E (code london) = Inr (1 / 10, 7 / 100)"
    by (simp add: get_live_failing_ireland london_def)
  ultimately show ?thesis by blast
qed

subsection \<open>Empty outcomes (C4)\<close>

text \<open>
  C4, as amended. When the distance filter leaves no region, \<^verbatim>\<open>recommend_region\<close> returns
  (does not raise) the dict \<^verbatim>\<open>{"error": "No regions found within specified distance"}\<close>;
  when regions pass the distance filter and none passes the availability filter it returns
  \<^verbatim>\<open>{"error": "No regions support all required services"}\<close>. The two messages differ, and
  the dict has no other key: it carries no stage counter and no ranked sequence.
\<close>

theorem recommend_region_empty_outcomes:
  "(find_nearby_regions regions user_location max_distance_km = Inr [] \<longrightarrow>
      recommend_region E regions user_location required_services max_distance_km =
        Inr [(''error'', Str ''No regions found within specified distance'')]) \<and>
   (\<forall>nearby. find_nearby_regions regions user_location max_distance_km = Inr nearby \<and>
        nearby \<noteq> [] \<and> filter_by_services E nearby required_services = [] \<longrightarrow>
      recommend_region E regions user_location required_services max_distance_km =
        Inr [(''error'', Str ''No regions support all required services'')]) \<and>
   ''No regions found within specified distance'' \<noteq> ''No regions support all required services''"
  by (simp add: recommend_region_def)

theorem recommend_region_empty_outcomes_witness:
  "find_nearby_regions sample_regions (0, 0) (- 1) = Inr [] \<and>
   recommend_region (sample_env (\<lambda>url. intensity_json 100) aws_up)
      sample_regions (0, 0) [''ec2''] (- 1)
     = Inr [(''error'', Str ''No regions found within specified distance'')] \<and>
   find_nearby_regions sample_regions (0, 0) 5000 = Inr [london, ireland] \<and>
   filter_by_services (sample_env (\<lambda>url. intensity_json 100) aws_redshift_down)
      [london, ireland] [''ec2'', ''redshift''] = [] \<and>
   recommend_region (sample_env (\<lambda>url. intensity_json 100) aws_redshift_down)
      sample_regions (0, 0) [''ec2'', ''redshift''] 5000
     = Inr [(''error'', Str ''No regions support all required services'')]"
proof -
  let ?E1 = "sample_env (\<lambda>url. intensity_json 100) aws_up"
  let ?E2 = "sample_env (\<lambda>url. intensity_json 100) aws_redshift_down"
  have a: "find_nearby_regions sample_regions (0, 0) (- 1) = Inr []"
    by (simp add: find_nearby_regions_eq regions_within_sample_none)
  have b: "find_nearby_regions sample_regions (0, 0) 5000 = Inr [london, ireland]"
    by (simp add: find_nearby_regions_eq regions_within_sample_origin)
  have f: "filter_by_services ?E2 [london, ireland] [''ec2'', ''redshift''] = []"
    by (simp add: filter_by_services_def redshift_down_unavailable)
  have 1: "recommend_region ?E1 sample_regions (0, 0) [''ec2''] (- 1)
     = Inr [(''error'', Str ''No regions found within specified distance'')]"
    using recommend_region_empty_outcomes [of sample_regions "(0, 0)" "- 1" ?E1 "[''ec2'']"] a
    by blast
  have 2: "recommend_region ?E2 sample_regions (0, 0) [''ec2'', ''redshift''] 5000
     = Inr [(''error'', Str ''No regions support all required services'')]"
    using recommend_region_empty_outcomes
      [of sample_regions "(0, 0)" 5000 ?E2 "[''ec2'', ''redshift'']"] b f
    by blast
  from a b f 1 2 show ?thesis by blast
qed

text \<open>
  C4 as stated fails: two regions pass the distance filter, none offers \<^verbatim>\<open>redshift\<close>, and
  the result is the one-key error dict, with no count of the regions that survived the
  distance filter.
\<close>

theorem recommend_region_no_counters_counterexample:
  "recommend_region (sample_env (\<lambda>url. intensity_json 100) aws_redshift_down)
      sample_regions (0, 0) [''ec2'', ''redshift''] 5000
     = Inr [(''error'', Str ''No regions support all required services'')] \<and>
   find_nearby_regions sample_regions (0, 0) 5000 = Inr [london, ireland]"
proof -
  let ?E = "sample_env (\<lambda>url. intensity_json 100) aws_redshift_down"
  have f: "filter_by_services ?E [london, ireland] [''ec2'', ''redshift''] = []"
    by (simp add: filter_by_services_def redshift_down_unavailable)
  show ?thesis
    by (simp add: recommend_region_empty_compatible regions_within_sample_origin f
        find_nearby_regions_eq)
qed

subsection \<open>Out-of-range coordinates (C7)\<close>




subsection \<open>The order of the ranking (C1, C10)\<close>






end
